theory Spec2Isabelle
  imports Complex_Main
begin

section \<open>Curved text layout (src/shapes/CurvedText.ts)\<close>

text \<open>
  Numbers of the source are IEEE doubles; the model computes over the reals, so that
  \<open>Math.sin\<close>, \<open>Math.cos\<close> and \<open>Math.PI\<close> are \<^term>\<open>sin\<close>, \<^term>\<open>cos\<close> and \<^term>\<open>pi\<close>.
  The two attributes that the class reads with \<open>getAttr\<close> and that have no registered
  default (\<open>curveRadius\<close>, \<open>curveDirection\<close>) may be absent or not a number; they are
  values of \<open>jsnum\<close>.
\<close>

subsection \<open>Attribute values\<close>

datatype jsnum = Undefined | NaN | Num real

text \<open>\<open>v || d\<close> for a numeric default \<open>d\<close>: the falsy values are undefined, NaN and 0.\<close>

definition js_or :: "jsnum \<Rightarrow> real \<Rightarrow> real" where
  "js_or v d = (case v of Num r \<Rightarrow> if r = 0 then d else r | Undefined \<Rightarrow> d | NaN \<Rightarrow> d)"

text \<open>\<open>v > 0\<close> and \<open>v < 0\<close>: a comparison with undefined or NaN is false.\<close>

definition js_gt0 :: "jsnum \<Rightarrow> bool" where
  "js_gt0 v = (case v of Num r \<Rightarrow> 0 < r | Undefined \<Rightarrow> False | NaN \<Rightarrow> False)"

definition js_lt0 :: "jsnum \<Rightarrow> bool" where
  "js_lt0 v = (case v of Num r \<Rightarrow> r < 0 | Undefined \<Rightarrow> False | NaN \<Rightarrow> False)"

text \<open>\<open>v === 0\<close> on the local \<open>curveRadius\<close>, which is a number after \<open>|| 1000000\<close>.\<close>

definition js_is0 :: "real \<Rightarrow> bool" where
  "js_is0 r = (r = 0)"

datatype error = TypeError

subsection \<open>Data\<close>

text \<open>An entry of the local array \<open>text\<close> of \<open>computeText\<close>: \<open>{x, y, rotation, glyph}\<close>.\<close>

record placed_glyph =
  g_x :: real
  g_y :: real
  g_rotation :: real
  g_glyph :: string

text \<open>The object returned by \<open>getTextMetrics\<close>: \<open>{text, xOffsets, width}\<close>.\<close>

record text_metrics =
  tm_text :: string
  xOffsets :: "real list"
  tm_width :: real

text \<open>\<open>curvePath\<close>: \<open>{cx, cy, radius, color}\<close>.\<close>

record curve_path =
  cp_cx :: real
  cp_cy :: real
  cp_radius :: real
  cp_color :: string

text \<open>The value stored under \<open>_computedText\<close>.\<close>

record computed_text =
  curvePath :: curve_path
  textMetrics :: text_metrics
  curveText :: "placed_glyph list"

text \<open>The local \<open>bounds\<close> of \<open>computeText\<close>, the \<open>oldBounds\<close> of \<open>updateBounds\<close>.\<close>

record bounds =
  b_x :: real
  b_y :: real
  b_width :: real
  b_height :: real
  b_rotation :: real
  b_scaleX :: real
  b_scaleY :: real

text \<open>The local \<open>textBounds\<close> of \<open>updateBounds\<close>.\<close>

record text_bounds =
  minX :: real
  minY :: real
  maxX :: real
  maxY :: real

text \<open>
  The attributes of a \<open>CurvedText\<close> node that the layout reads or writes. \<open>computedText\<close>
  is \<open>None\<close> for the initial \<open>null\<close>.
\<close>

record shape =
  shape_x :: real
  shape_y :: real
  shape_width :: real
  shape_height :: real
  shape_rotation :: real
  shape_scaleX :: real
  shape_scaleY :: real
  text_attr :: string
  fontFamily :: string
  fontSize :: real
  fontStyle :: string
  fontVariant :: string
  curveRadius :: jsnum
  curveDirection :: jsnum
  computedText :: "computed_text option"

subsection \<open>The text measurement service\<close>

text \<open>
  \<open>_getContextFont\<close> composes the font descriptor from \<open>fontStyle\<close>, \<open>fontVariant\<close>,
  \<open>fontSize\<close> and \<open>fontFamily\<close>; the descriptor is kept as the tuple of the four
  attributes it is made of. The canvas context is a parameter: a function from the
  descriptor and a string to the measured width.
\<close>

type_synonym font = "string \<times> string \<times> real \<times> string"

type_synonym measurer = "font \<Rightarrow> string \<Rightarrow> real"

definition getContextFont :: "shape \<Rightarrow> font" where
  "getContextFont s = (fontStyle s, fontVariant s, fontSize s, fontFamily s)"

text \<open>\<open>String.prototype.substring\<close> on indices that are natural numbers.\<close>

definition substring :: "string \<Rightarrow> nat \<Rightarrow> nat \<Rightarrow> string" where
  "substring t a b =
     (let a' = min a (length t); b' = min b (length t)
      in take (max a' b' - min a' b') (drop (min a' b') t))"

subsection \<open>getTextMetrics\<close>

text \<open>The body of the second loop, at index \<open>i\<close>, on the array \<open>xOffsets\<close> built so far.\<close>

definition xOffsets_push :: "(string \<Rightarrow> real) \<Rightarrow> string \<Rightarrow> string list \<Rightarrow> nat \<Rightarrow> real list \<Rightarrow> real list" where
  "xOffsets_push measureText t glyphs i xo =
     (let pairTextWidth = measureText (substring t (i - 1) (i + 1));
          prevCharWidth = measureText (glyphs ! (i - 1));
          currentCharWidth = measureText (glyphs ! i)
      in xo @ [xo ! (i - 1) + pairTextWidth - prevCharWidth / 2 - currentCharWidth / 2])"

definition getTextMetrics :: "measurer \<Rightarrow> shape \<Rightarrow> text_metrics" where
  "getTextMetrics mt s =
     (let measureText = mt (getContextFont s);
          t = text_attr s;
          glyphs = map (\<lambda>i. substring t i (i + 1)) [0..<length t];
          xo = fold (xOffsets_push measureText t glyphs) [1..<length t]
                 [measureText (substring t 0 1) / 2]
      in \<lparr>tm_text = t, xOffsets = xo, tm_width = measureText t\<rparr>)"

subsection \<open>updateBounds\<close>

text \<open>The body of the loop: four conditional assignments, in the order of the source.\<close>

definition grow_bounds :: "placed_glyph \<Rightarrow> text_bounds \<Rightarrow> text_bounds" where
  "grow_bounds g tb =
     (let tb1 = (if minX tb > g_x g then tb\<lparr>minX := g_x g\<rparr> else tb);
          tb2 = (if maxX tb1 < g_x g then tb1\<lparr>maxX := g_x g\<rparr> else tb1);
          tb3 = (if minY tb2 > g_y g then tb2\<lparr>minY := g_y g\<rparr> else tb2);
          tb4 = (if maxY tb3 < g_y g then tb3\<lparr>maxY := g_y g\<rparr> else tb3)
      in tb4)"

text \<open>
  \<open>text[0].x\<close> on an empty array reads a property of \<open>undefined\<close> and throws a TypeError.
  The initial \<open>maxY\<close> is \<open>text[0].x\<close>, as in the source.
\<close>

definition updateBounds :: "shape \<Rightarrow> bounds \<Rightarrow> placed_glyph list \<Rightarrow> error + shape" where
  "updateBounds s oldBounds txt =
     (case txt of
        [] \<Rightarrow> Inl TypeError
      | g0 # _ \<Rightarrow>
          (let textBounds = fold grow_bounds txt
                 \<lparr>minX = g_x g0, minY = g_y g0, maxX = g_x g0, maxY = g_x g0\<rparr>;
               newWidth = maxX textBounds - minX textBounds + fontSize s;
               newHeight = maxY textBounds - minY textBounds + fontSize s;
               dx = (b_width oldBounds * b_scaleX oldBounds - newWidth * b_scaleX oldBounds) / 2;
               dy = (if js_lt0 (curveDirection s)
                     then b_height oldBounds * b_scaleY oldBounds - newHeight * b_scaleY oldBounds
                     else 0);
               a = b_rotation oldBounds * pi / 180
           in Inr (s\<lparr>shape_width := newWidth,
                     shape_height := newHeight,
                     shape_x := b_x oldBounds + (dx * cos a + dy * sin a),
                     shape_y := b_y oldBounds + (dx * sin a + dy * cos a)\<rparr>)))"

subsection \<open>computeText\<close>

text \<open>The local \<open>curveRadius\<close>: \<open>this.getAttr('curveRadius') || 1000000\<close>.\<close>

definition effectiveRadius :: "shape \<Rightarrow> real" where
  "effectiveRadius s = js_or (curveRadius s) 1000000"

text \<open>The local \<open>circumference\<close>: \<open>Math.PI * (curveRadius * 2)\<close>.\<close>

definition circumference :: "real \<Rightarrow> real" where
  "circumference r = pi * (r * 2)"

text \<open>The body of the loop of \<open>computeText\<close> at index \<open>i\<close>.\<close>

definition place_glyph :: "real \<Rightarrow> jsnum \<Rightarrow> text_metrics \<Rightarrow> nat \<Rightarrow> placed_glyph" where
  "place_glyph r d tm i =
     (let rotation = (- tm_width tm / 2 + xOffsets tm ! i) * 360 / circumference r;
          cy = (if js_gt0 d then r else - r);
          x = r * sin (rotation * pi / 180);
          y = cy - cy * cos (rotation * pi / 180)
      in \<lparr>g_x = x, g_y = y,
          g_rotation = (if js_is0 r then 0
                        else if js_gt0 d then rotation * pi / 180
                        else - rotation * pi / 180),
          g_glyph = [tm_text tm ! i]\<rparr>)"

definition computeText :: "measurer \<Rightarrow> shape \<Rightarrow> error + shape" where
  "computeText mt s =
     (let bnds = \<lparr>b_x = shape_x s, b_y = shape_y s, b_width = shape_width s,
                  b_height = shape_height s, b_rotation = shape_rotation s,
                  b_scaleX = shape_scaleX s, b_scaleY = shape_scaleY s\<rparr>;
          r = effectiveRadius s;
          d = curveDirection s;
          tm = getTextMetrics mt s;
          txt = map (place_glyph r d tm) [0..<length (tm_text tm)]
      in case updateBounds s bnds txt of
           Inl e \<Rightarrow> Inl e
         | Inr s' \<Rightarrow>
             Inr (s'\<lparr>computedText := Some
                    \<lparr>curvePath = \<lparr>cp_cx = 0, cp_cy = (if js_gt0 d then r else - r),
                                  cp_radius = r, cp_color = ''rgb(31, 163, 249)''\<rparr>,
                     textMetrics = tm,
                     curveText = txt\<rparr>\<rparr>))"

text \<open>\<open>setText\<close> on a string, or on null or undefined (\<open>None\<close>), which become the empty string.\<close>

definition setText :: "measurer \<Rightarrow> string option \<Rightarrow> shape \<Rightarrow> error + shape" where
  "setText mt t s =
     computeText mt (s\<lparr>text_attr := (case t of Some str \<Rightarrow> str | None \<Rightarrow> [])\<rparr>)"

subsection \<open>checkDefaultFill\<close>

text \<open>
  The four keys of the configuration that \<open>checkDefaultFill\<close> reads. A colour-stop array
  and an image are objects, truthy whenever present; \<open>fill\<close> is a string, falsy when
  absent or empty.
\<close>

record config =
  fillLinearGradientColorStops :: "string list option"
  fillRadialGradientColorStops :: "string list option"
  fillPatternImage :: "string option"
  fill :: "string option"

definition empty_config :: config where
  "empty_config = \<lparr>fillLinearGradientColorStops = None, fillRadialGradientColorStops = None,
                    fillPatternImage = None, fill = None\<rparr>"

text \<open>\<open>config.fill || 'black'\<close>.\<close>

definition fill_or_black :: "string option \<Rightarrow> string" where
  "fill_or_black f = (case f of None \<Rightarrow> ''black'' | Some c \<Rightarrow> if c = [] then ''black'' else c)"

definition checkDefaultFill :: "config option \<Rightarrow> config" where
  "checkDefaultFill cfg =
     (let c = (case cfg of None \<Rightarrow> empty_config | Some c0 \<Rightarrow> c0)
      in if fillLinearGradientColorStops c = None \<and>
            fillRadialGradientColorStops c = None \<and>
            fillPatternImage c = None
         then c\<lparr>fill := Some (fill_or_black (fill c))\<rparr>
         else c)"

subsection \<open>Sample inputs\<close>

text \<open>A measurement service without kerning: every glyph is 10 wide, in every font.\<close>

definition demo_measure :: measurer where
  "demo_measure f t = 10 * real (length t)"

text \<open>The two-glyph text "AB" on a circle of radius 100 that curves upward.\<close>

definition demo_shape :: shape where
  "demo_shape = \<lparr>shape_x = 0, shape_y = 0, shape_width = 0, shape_height = 0,
     shape_rotation = 0, shape_scaleX = 1, shape_scaleY = 1, text_attr = ''AB'',
     fontFamily = ''Arial'', fontSize = 12, fontStyle = ''normal'', fontVariant = ''normal'',
     curveRadius = Num 100, curveDirection = Num 1, computedText = None\<rparr>"

text \<open>The one-glyph text "A" with the same attributes, and what \<open>computeText\<close> makes of it.\<close>

definition demo_single :: shape where
  "demo_single = demo_shape\<lparr>text_attr := ''A''\<rparr>"

definition demo_single_out :: shape where
  "demo_single_out = demo_single\<lparr>shape_width := 12, shape_height := 12, shape_x := - 6, shape_y := 0,
     computedText := Some \<lparr>curvePath = \<lparr>cp_cx = 0, cp_cy = 100, cp_radius = 100, cp_color = ''rgb(31, 163, 249)''\<rparr>,
        textMetrics = \<lparr>tm_text = ''A'', xOffsets = [5], tm_width = 10\<rparr>,
        curveText = [\<lparr>g_x = 0, g_y = 0, g_rotation = 0, g_glyph = ''A''\<rparr>]\<rparr>\<rparr>"

text \<open>The text "AB" with \<open>curveRadius: 0\<close>, as in the example of the class comment.\<close>

definition flat_shape :: shape where
  "flat_shape = demo_shape\<lparr>curveRadius := Num 0\<rparr>"

text \<open>The text "A" on a node turned by 90 degrees, with a negative curve direction.\<close>

definition turned_shape :: shape where
  "turned_shape = demo_single\<lparr>shape_rotation := 90, curveDirection := Num (- 1)\<rparr>"

text \<open>Glyphs 20 wide, and the text "AB" on a circle of radius 5 with a negative direction.\<close>

definition wide_measure :: measurer where
  "wide_measure f t = 20 * real (length t)"

definition tight_shape :: shape where
  "tight_shape = demo_shape\<lparr>curveRadius := Num 5, curveDirection := Num (- 1)\<rparr>"

section \<open>Strings and the offsets loop\<close>

lemma substring_single: "i < length t \<Longrightarrow> substring t i (Suc i) = [t ! i]"
  by (simp add: substring_def Let_def min_def max_def take_Suc_conv_app_nth hd_drop_conv_nth take_Suc)

lemma substring_pair:
  "Suc i < length t \<Longrightarrow> substring t i (Suc (Suc i)) = [t ! i, t ! Suc i]"
proof -
  assume h: "Suc i < length t"
  then have "drop i t = t ! i # drop (Suc i) t"
    by (simp add: Cons_nth_drop_Suc)
  moreover from h have "drop (Suc i) t = t ! Suc i # drop (Suc (Suc i)) t"
    by (simp add: Cons_nth_drop_Suc)
  ultimately have "take 2 (drop i t) = [t ! i, t ! Suc i]"
    by (simp add: numeral_2_eq_2)
  with h show ?thesis
    by (simp add: substring_def Let_def min_def max_def)
qed

lemma substring_whole: "substring t 0 (length t) = t"
  by (simp add: substring_def)

lemma xOffsets_push_length: "length (xOffsets_push m t g i xo) = Suc (length xo)"
  by (simp add: xOffsets_push_def Let_def)

lemma fold_push_length:
  "length (fold (xOffsets_push m t g) is xo) = length xo + length is"
  by (induction "is" arbitrary: xo) (simp_all add: xOffsets_push_length)

lemma fold_push_Suc:
  "1 \<le> k \<Longrightarrow> fold (xOffsets_push m t g) [1..<Suc k] xo =
     xOffsets_push m t g k (fold (xOffsets_push m t g) [1..<k] xo)"
  by simp

lemma fold_push_prefix:
  "1 \<le> k \<Longrightarrow> k \<le> n \<Longrightarrow>
   take k (fold (xOffsets_push m t g) [1..<n] [c]) = fold (xOffsets_push m t g) [1..<k] [c]"
proof (induction n)
  case 0
  then show ?case by simp
next
  case (Suc n)
  show ?case
  proof (cases "k = Suc n")
    case True
    then show ?thesis by (simp add: fold_push_length)
  next
    case False
    with Suc.prems have kn: "k \<le> n" by simp
    with Suc.prems have n1: "1 \<le> n" by simp
    have len: "length (fold (xOffsets_push m t g) [1..<n] [c]) = n"
      using n1 by (simp add: fold_push_length)
    have "fold (xOffsets_push m t g) [1..<Suc n] [c] =
          xOffsets_push m t g n (fold (xOffsets_push m t g) [1..<n] [c])"
      using n1 by (rule fold_push_Suc)
    then have "take k (fold (xOffsets_push m t g) [1..<Suc n] [c]) =
          take k (fold (xOffsets_push m t g) [1..<n] [c])"
      using kn len by (simp add: xOffsets_push_def Let_def)
    with Suc.IH[OF Suc.prems(1) kn] show ?thesis by simp
  qed
qed

lemma fold_push_nth:
  assumes "1 \<le> i" and "i < n"
  shows "fold (xOffsets_push m t g) [1..<n] [c] ! i =
         fold (xOffsets_push m t g) [1..<n] [c] ! (i - 1)
           + m (substring t (i - 1) (i + 1)) - m (g ! (i - 1)) / 2 - m (g ! i) / 2"
proof -
  let ?F = "\<lambda>k. fold (xOffsets_push m t g) [1..<k] [c]"
  have len: "length (?F i) = i"
    using assms(1) by (simp add: fold_push_length)
  have "take (Suc i) (?F n) = ?F (Suc i)"
    using assms by (intro fold_push_prefix) simp_all
  then have "take (Suc i) (?F n) ! i = ?F (Suc i) ! i" by simp
  then have a: "?F n ! i = ?F (Suc i) ! i" by simp
  have "take i (?F n) = ?F i"
    using assms by (intro fold_push_prefix) simp_all
  then have "take i (?F n) ! (i - 1) = ?F i ! (i - 1)" by simp
  then have b: "?F n ! (i - 1) = ?F i ! (i - 1)" using assms(1) by simp
  have "?F (Suc i) = xOffsets_push m t g i (?F i)"
    using assms(1) by (rule fold_push_Suc)
  then have "?F (Suc i) ! i =
      ?F i ! (i - 1) + m (substring t (i - 1) (i + 1)) - m (g ! (i - 1)) / 2 - m (g ! i) / 2"
    using len by (simp add: xOffsets_push_def Let_def nth_append)
  with a b show ?thesis by simp
qed

lemma fold_push_nth0:
  "fold (xOffsets_push m t g) [Suc 0..<n] [c] ! 0 = c"
proof (cases "1 \<le> n")
  case True
  then have "take 1 (fold (xOffsets_push m t g) [1..<n] [c]) = fold (xOffsets_push m t g) [1..<1] [c]"
    by (intro fold_push_prefix) simp_all
  then have "take 1 (fold (xOffsets_push m t g) [1..<n] [c]) ! 0 = c" by simp
  then show ?thesis by (simp del: One_nat_def add: One_nat_def[symmetric])
next
  case False
  then show ?thesis by simp
qed

lemma getTextMetrics_text [simp]: "tm_text (getTextMetrics mt s) = text_attr s"
  by (simp add: getTextMetrics_def Let_def)

lemma getTextMetrics_width [simp]:
  "tm_width (getTextMetrics mt s) = mt (getContextFont s) (text_attr s)"
  by (simp add: getTextMetrics_def Let_def)

lemma getTextMetrics_xOffsets_length:
  "text_attr s \<noteq> [] \<Longrightarrow> length (xOffsets (getTextMetrics mt s)) = length (text_attr s)"
proof -
  assume "text_attr s \<noteq> []"
  then have "1 \<le> length (text_attr s)" by (simp add: Suc_le_eq)
  then show ?thesis by (simp add: getTextMetrics_def Let_def fold_push_length)
qed

section \<open>The glyph measurer\<close>

text \<open>
  C5. For a non-empty text of length n, \<open>getTextMetrics\<close> returns n offsets; the first is
  half the width of the first glyph; each later one is its predecessor plus the measured
  width of the pair of glyphs \<open>i - 1\<close> and \<open>i\<close>, minus half the width of each of the two;
  and the returned width is the measured width of the whole text.
\<close>

theorem getTextMetrics_offsets:
  assumes "text_attr s \<noteq> []"
  shows "length (xOffsets (getTextMetrics mt s)) = length (text_attr s)
       \<and> xOffsets (getTextMetrics mt s) ! 0 = mt (getContextFont s) [text_attr s ! 0] / 2
       \<and> (\<forall>i. 1 \<le> i \<and> i < length (text_attr s) \<longrightarrow>
            xOffsets (getTextMetrics mt s) ! i =
              xOffsets (getTextMetrics mt s) ! (i - 1)
              + mt (getContextFont s) [text_attr s ! (i - 1), text_attr s ! i]
              - mt (getContextFont s) [text_attr s ! (i - 1)] / 2
              - mt (getContextFont s) [text_attr s ! i] / 2)
       \<and> tm_width (getTextMetrics mt s) = mt (getContextFont s) (text_attr s)"
proof (intro conjI allI impI)
  show "length (xOffsets (getTextMetrics mt s)) = length (text_attr s)"
    using assms by (rule getTextMetrics_xOffsets_length)
next
  have "0 < length (text_attr s)" using assms by simp
  then have "substring (text_attr s) 0 1 = [text_attr s ! 0]"
    using substring_single[of 0 "text_attr s"] by simp
  then show "xOffsets (getTextMetrics mt s) ! 0 = mt (getContextFont s) [text_attr s ! 0] / 2"
    by (simp add: getTextMetrics_def Let_def fold_push_nth0)
next
  fix i
  assume i: "1 \<le> i \<and> i < length (text_attr s)"
  then obtain j where j: "i = Suc j" by (cases i) auto
  with i have jl: "Suc j < length (text_attr s)" by simp
  have p: "substring (text_attr s) (i - 1) (i + 1) = [text_attr s ! (i - 1), text_attr s ! i]"
    using substring_pair[OF jl] j by simp
  have g1: "map (\<lambda>k. substring (text_attr s) k (k + 1)) [0..<length (text_attr s)] ! (i - 1)
              = [text_attr s ! (i - 1)]"
    using jl j substring_single[of j "text_attr s"] by simp
  have g2: "map (\<lambda>k. substring (text_attr s) k (k + 1)) [0..<length (text_attr s)] ! i
              = [text_attr s ! i]"
    using jl j substring_single[of i "text_attr s"] by simp
  have xo: "xOffsets (getTextMetrics mt s) =
      fold (xOffsets_push (mt (getContextFont s)) (text_attr s)
             (map (\<lambda>k. substring (text_attr s) k (k + 1)) [0..<length (text_attr s)]))
           [1..<length (text_attr s)]
           [mt (getContextFont s) (substring (text_attr s) 0 1) / 2]"
    by (simp add: getTextMetrics_def Let_def)
  from i have i1: "1 \<le> i" and i2: "i < length (text_attr s)" by simp_all
  show "xOffsets (getTextMetrics mt s) ! i =
              xOffsets (getTextMetrics mt s) ! (i - 1)
              + mt (getContextFont s) [text_attr s ! (i - 1), text_attr s ! i]
              - mt (getContextFont s) [text_attr s ! (i - 1)] / 2
              - mt (getContextFont s) [text_attr s ! i] / 2"
    unfolding xo by (simp only: fold_push_nth[OF i1 i2] p g1 g2)
next
  show "tm_width (getTextMetrics mt s) = mt (getContextFont s) (text_attr s)" by simp
qed

theorem getTextMetrics_offsets_witness:
  "text_attr demo_shape \<noteq> [] \<and>
   length (xOffsets (getTextMetrics demo_measure demo_shape)) = 2 \<and>
   xOffsets (getTextMetrics demo_measure demo_shape) ! 0 = 5 \<and>
   xOffsets (getTextMetrics demo_measure demo_shape) ! 1 = 15 \<and>
   tm_width (getTextMetrics demo_measure demo_shape) = 20"
proof -
  have h: "text_attr demo_shape \<noteq> []" by (simp add: demo_shape_def)
  have t: "text_attr demo_shape = ''AB''" by (simp add: demo_shape_def)
  from getTextMetrics_offsets[OF h, of demo_measure]
  have a: "length (xOffsets (getTextMetrics demo_measure demo_shape)) = length (text_attr demo_shape)"
    and b: "xOffsets (getTextMetrics demo_measure demo_shape) ! 0 = demo_measure (getContextFont demo_shape) [text_attr demo_shape ! 0] / 2"
    and c: "\<forall>i. 1 \<le> i \<and> i < length (text_attr demo_shape) \<longrightarrow>
            xOffsets (getTextMetrics demo_measure demo_shape) ! i =
              xOffsets (getTextMetrics demo_measure demo_shape) ! (i - 1)
              + demo_measure (getContextFont demo_shape) [text_attr demo_shape ! (i - 1), text_attr demo_shape ! i]
              - demo_measure (getContextFont demo_shape) [text_attr demo_shape ! (i - 1)] / 2
              - demo_measure (getContextFont demo_shape) [text_attr demo_shape ! i] / 2"
    and d: "tm_width (getTextMetrics demo_measure demo_shape) = demo_measure (getContextFont demo_shape) (text_attr demo_shape)"
    by blast+
  from c[rule_format, of 1] b have "xOffsets (getTextMetrics demo_measure demo_shape) ! 1 = 15"
    by (simp add: t demo_measure_def)
  with h a b d show ?thesis by (simp add: t demo_measure_def)
qed

section \<open>The effective radius\<close>

lemma js_or_nonzero: "d \<noteq> 0 \<Longrightarrow> js_or v d \<noteq> 0"
  by (cases v) (simp_all add: js_or_def)

lemma effectiveRadius_nonzero: "effectiveRadius s \<noteq> 0"
  by (simp add: effectiveRadius_def js_or_nonzero)

text \<open>
  C7. Whatever the value of the attribute \<open>curveRadius\<close> (a number, 0, absent, NaN), the
  radius that the layout uses is not zero, and neither is the circumference by which the
  glyph offsets are divided; the falsy values all give 1000000.
\<close>

theorem effectiveRadius_circumference_nonzero:
  "effectiveRadius (s\<lparr>curveRadius := v\<rparr>) \<noteq> 0
   \<and> circumference (effectiveRadius (s\<lparr>curveRadius := v\<rparr>)) \<noteq> 0
   \<and> effectiveRadius (s\<lparr>curveRadius := Num 0\<rparr>) = 1000000
   \<and> effectiveRadius (s\<lparr>curveRadius := Undefined\<rparr>) = 1000000
   \<and> effectiveRadius (s\<lparr>curveRadius := NaN\<rparr>) = 1000000"
  by (simp add: circumference_def effectiveRadius_nonzero) (simp add: effectiveRadius_def js_or_def)

section \<open>The bounding box\<close>

lemma updateBounds_ok:
  "txt \<noteq> [] \<Longrightarrow> \<exists>s'. updateBounds s b txt = Inr s'"
  by (cases "txt") (simp_all add: updateBounds_def Let_def)

lemma updateBounds_keeps:
  assumes "updateBounds s b txt = Inr s'"
  shows "text_attr s' = text_attr s" and "fontFamily s' = fontFamily s"
    and "fontSize s' = fontSize s" and "fontStyle s' = fontStyle s"
    and "fontVariant s' = fontVariant s" and "curveRadius s' = curveRadius s"
    and "curveDirection s' = curveDirection s"
  using assms by (cases "txt"; auto simp add: updateBounds_def Let_def)+

lemma grow_bounds_fields:
  "minX (grow_bounds g tb) = min (minX tb) (g_x g)"
  "maxX (grow_bounds g tb) = max (maxX tb) (g_x g)"
  "minY (grow_bounds g tb) = min (minY tb) (g_y g)"
  "maxY (grow_bounds g tb) = max (maxY tb) (g_y g)"
  by (simp_all add: grow_bounds_def Let_def min_def max_def)

lemma fold_grow_bounds:
  "minX (fold grow_bounds gs tb) = Min (insert (minX tb) (g_x ` set gs))"
  "maxX (fold grow_bounds gs tb) = Max (insert (maxX tb) (g_x ` set gs))"
  "minY (fold grow_bounds gs tb) = Min (insert (minY tb) (g_y ` set gs))"
  "maxY (fold grow_bounds gs tb) = Max (insert (maxY tb) (g_y ` set gs))"
proof (induction gs arbitrary: tb)
  case Nil
  {
    case 1 show ?case by simp
  next
    case 2 show ?case by simp
  next
    case 3 show ?case by simp
  next
    case 4 show ?case by simp
  }
next
  case (Cons g gs)
  {
    case 1
    have "Min (insert (min (minX tb) (g_x g)) (g_x ` set gs))
        = Min (insert (minX tb) (insert (g_x g) (g_x ` set gs)))"
      by (cases "gs = []") (simp_all add: min.assoc)
    then show ?case by (simp add: Cons.IH(1) grow_bounds_fields)
  next
    case 2
    have "Max (insert (max (maxX tb) (g_x g)) (g_x ` set gs))
        = Max (insert (maxX tb) (insert (g_x g) (g_x ` set gs)))"
      by (cases "gs = []") (simp_all add: max.assoc)
    then show ?case by (simp add: Cons.IH(2) grow_bounds_fields)
  next
    case 3
    have "Min (insert (min (minY tb) (g_y g)) (g_y ` set gs))
        = Min (insert (minY tb) (insert (g_y g) (g_y ` set gs)))"
      by (cases "gs = []") (simp_all add: min.assoc)
    then show ?case by (simp add: Cons.IH(3) grow_bounds_fields)
  next
    case 4
    have "Max (insert (max (maxY tb) (g_y g)) (g_y ` set gs))
        = Max (insert (maxY tb) (insert (g_y g) (g_y ` set gs)))"
      by (cases "gs = []") (simp_all add: max.assoc)
    then show ?case by (simp add: Cons.IH(4) grow_bounds_fields)
  }
qed

text \<open>
  The new width is the extent of the glyph abscissas plus \<open>fontSize\<close>. The new height is
  taken from a \<open>maxY\<close> that starts at the abscissa of the first glyph.
\<close>

lemma updateBounds_size:
  assumes "updateBounds s b (g0 # gs) = Inr s'"
  shows "shape_width s' = Max (g_x ` set (g0 # gs)) - Min (g_x ` set (g0 # gs)) + fontSize s"
    and "shape_height s' = Max (insert (g_x g0) (g_y ` set (g0 # gs))) - Min (g_y ` set (g0 # gs)) + fontSize s"
proof -
  let ?tb0 = "\<lparr>minX = g_x g0, minY = g_y g0, maxX = g_x g0, maxY = g_x g0\<rparr>"
  let ?tb = "fold grow_bounds (g0 # gs) ?tb0"
  have w: "shape_width s' = maxX ?tb - minX ?tb + fontSize s"
    and h: "shape_height s' = maxY ?tb - minY ?tb + fontSize s"
    using assms by (auto simp add: updateBounds_def Let_def simp del: fold_simps)
  have "maxX ?tb = Max (g_x ` set (g0 # gs))" "minX ?tb = Min (g_x ` set (g0 # gs))"
    by (simp_all only: fold_grow_bounds) simp_all
  with w show "shape_width s' = Max (g_x ` set (g0 # gs)) - Min (g_x ` set (g0 # gs)) + fontSize s"
    by simp
  have "maxY ?tb = Max (insert (g_x g0) (g_y ` set (g0 # gs)))" "minY ?tb = Min (g_y ` set (g0 # gs))"
    by (simp_all only: fold_grow_bounds) simp_all
  with h show "shape_height s' = Max (insert (g_x g0) (g_y ` set (g0 # gs))) - Min (g_y ` set (g0 # gs)) + fontSize s"
    by simp
qed

text \<open>
  The new position: the deltas enter the abscissa as dx cos + dy sin and the ordinate as
  dx sin + dy cos, with the angle of the old rotation in radians.
\<close>

lemma updateBounds_position:
  assumes "updateBounds s b gs = Inr s'"
  shows "shape_x s' = b_x b
           + ((b_width b * b_scaleX b - shape_width s' * b_scaleX b) / 2 * cos (b_rotation b * pi / 180)
              + (if js_lt0 (curveDirection s)
                 then b_height b * b_scaleY b - shape_height s' * b_scaleY b else 0)
                * sin (b_rotation b * pi / 180))"
    and "shape_y s' = b_y b
           + ((b_width b * b_scaleX b - shape_width s' * b_scaleX b) / 2 * sin (b_rotation b * pi / 180)
              + (if js_lt0 (curveDirection s)
                 then b_height b * b_scaleY b - shape_height s' * b_scaleY b else 0)
                * cos (b_rotation b * pi / 180))"
  using assms
  by (cases "gs"; auto simp add: updateBounds_def Let_def simp del: fold_simps)+

section \<open>The recompute\<close>

lemma computeText_Inr:
  assumes "text_attr s \<noteq> []"
  shows "\<exists>s'. computeText mt s = Inr s' \<and> computedText s' = Some
         \<lparr>curvePath = \<lparr>cp_cx = 0,
            cp_cy = (if js_gt0 (curveDirection s) then effectiveRadius s else - effectiveRadius s),
            cp_radius = effectiveRadius s, cp_color = ''rgb(31, 163, 249)''\<rparr>,
          textMetrics = getTextMetrics mt s,
          curveText = map (place_glyph (effectiveRadius s) (curveDirection s) (getTextMetrics mt s))
                        [0..<length (text_attr s)]\<rparr>
     \<and> text_attr s' = text_attr s \<and> fontFamily s' = fontFamily s
     \<and> fontSize s' = fontSize s \<and> fontStyle s' = fontStyle s
     \<and> fontVariant s' = fontVariant s \<and> curveRadius s' = curveRadius s
     \<and> curveDirection s' = curveDirection s"
proof -
  let ?b = "\<lparr>b_x = shape_x s, b_y = shape_y s, b_width = shape_width s,
                  b_height = shape_height s, b_rotation = shape_rotation s,
                  b_scaleX = shape_scaleX s, b_scaleY = shape_scaleY s\<rparr>"
  let ?txt = "map (place_glyph (effectiveRadius s) (curveDirection s) (getTextMetrics mt s))
                    [0..<length (text_attr s)]"
  from assms have "?txt \<noteq> []" by simp
  then obtain s1 where s1: "updateBounds s ?b ?txt = Inr s1"
    using updateBounds_ok by blast
  then show ?thesis
    using updateBounds_keeps[OF s1]
    by (simp add: computeText_def Let_def)
qed

lemma computeText_empty: "text_attr s = [] \<Longrightarrow> computeText mt s = Inl TypeError"
  by (simp add: computeText_def Let_def updateBounds_def)

lemma computeText_Inr_nonempty: "computeText mt s = Inr s' \<Longrightarrow> text_attr s \<noteq> []"
  using computeText_empty[of s mt] by auto

lemma getTextMetrics_cong:
  assumes "text_attr u = text_attr s" and "fontFamily u = fontFamily s"
    and "fontSize u = fontSize s" and "fontStyle u = fontStyle s"
    and "fontVariant u = fontVariant s"
  shows "getTextMetrics mt u = getTextMetrics mt s"
  using assms by (simp add: getTextMetrics_def getContextFont_def)

lemma effectiveRadius_cong: "curveRadius u = curveRadius s \<Longrightarrow> effectiveRadius u = effectiveRadius s"
  by (simp add: effectiveRadius_def)

lemma place_glyph_fields:
  assumes "r \<noteq> 0"
  shows "g_x (place_glyph r d tm i) = r * sin ((xOffsets tm ! i - tm_width tm / 2) * 360 / (2 * pi * r) * pi / 180)"
    and "g_y (place_glyph r d tm i) = (if js_gt0 d then r else - r)
           - (if js_gt0 d then r else - r) * cos ((xOffsets tm ! i - tm_width tm / 2) * 360 / (2 * pi * r) * pi / 180)"
    and "g_rotation (place_glyph r d tm i) =
           (if js_gt0 d then (xOffsets tm ! i - tm_width tm / 2) * 360 / (2 * pi * r) * pi / 180
            else - ((xOffsets tm ! i - tm_width tm / 2) * 360 / (2 * pi * r) * pi / 180))"
    and "g_glyph (place_glyph r d tm i) = [tm_text tm ! i]"
proof -
  have e: "(- tm_width tm / 2 + xOffsets tm ! i) * 360 / circumference r
         = (xOffsets tm ! i - tm_width tm / 2) * 360 / (2 * pi * r)"
    by (simp add: circumference_def algebra_simps)
  show "g_x (place_glyph r d tm i) = r * sin ((xOffsets tm ! i - tm_width tm / 2) * 360 / (2 * pi * r) * pi / 180)"
    by (simp only: place_glyph_def Let_def e placed_glyph.simps)
  show "g_y (place_glyph r d tm i) = (if js_gt0 d then r else - r)
           - (if js_gt0 d then r else - r) * cos ((xOffsets tm ! i - tm_width tm / 2) * 360 / (2 * pi * r) * pi / 180)"
    by (simp only: place_glyph_def Let_def e placed_glyph.simps)
  show "g_rotation (place_glyph r d tm i) =
           (if js_gt0 d then (xOffsets tm ! i - tm_width tm / 2) * 360 / (2 * pi * r) * pi / 180
            else - ((xOffsets tm ! i - tm_width tm / 2) * 360 / (2 * pi * r) * pi / 180))"
    using assms by (simp only: place_glyph_def Let_def e placed_glyph.simps js_is0_def if_False minus_mult_left minus_divide_left)
  show "g_glyph (place_glyph r d tm i) = [tm_text tm ! i]"
    by (simp only: place_glyph_def Let_def placed_glyph.simps)
qed

subsection \<open>The sample inputs, evaluated\<close>

lemma demo_tm: "getTextMetrics demo_measure demo_shape = \<lparr>tm_text = ''AB'', xOffsets = [5, 15], tm_width = 20\<rparr>"
  by (simp add: getTextMetrics_def demo_measure_def demo_shape_def Let_def xOffsets_push_def substring_def)

lemma demo_single_tm: "getTextMetrics demo_measure demo_single = \<lparr>tm_text = ''A'', xOffsets = [5], tm_width = 10\<rparr>"
  by (simp add: getTextMetrics_def demo_measure_def demo_single_def demo_shape_def Let_def xOffsets_push_def substring_def)

lemma computeText_demo_single_explicit: "computeText demo_measure demo_single =
   Inr (demo_single\<lparr>shape_width := 12, shape_height := 12, shape_x := - 6, shape_y := 0,
     computedText := Some \<lparr>curvePath = \<lparr>cp_cx = 0, cp_cy = 100, cp_radius = 100, cp_color = ''rgb(31, 163, 249)''\<rparr>,
        textMetrics = \<lparr>tm_text = ''A'', xOffsets = [5], tm_width = 10\<rparr>,
        curveText = [\<lparr>g_x = 0, g_y = 0, g_rotation = 0, g_glyph = ''A''\<rparr>]\<rparr>\<rparr>)"
  by (simp add: computeText_def Let_def demo_single_tm place_glyph_def updateBounds_def grow_bounds_def circumference_def effectiveRadius_def js_or_def js_gt0_def js_lt0_def js_is0_def)
    (simp add: demo_single_def demo_shape_def)

lemma computeText_demo_single: "computeText demo_measure demo_single = Inr demo_single_out"
  unfolding demo_single_out_def by (rule computeText_demo_single_explicit)

lemma flat_glyphs:
  "map (place_glyph (effectiveRadius flat_shape) (curveDirection flat_shape)
          (getTextMetrics demo_measure flat_shape)) [0..<length (text_attr flat_shape)] =
  [\<lparr>g_x = 1000000 * sin (- 1 / 200000), g_y = 1000000 - 1000000 * cos (- 1 / 200000), g_rotation = - 1 / 200000, g_glyph = ''A''\<rparr>,
   \<lparr>g_x = 1000000 * sin (1 / 200000), g_y = 1000000 - 1000000 * cos (1 / 200000), g_rotation = 1 / 200000, g_glyph = ''B''\<rparr>]"
proof -
  have a: "effectiveRadius flat_shape = 1000000" "curveDirection flat_shape = Num 1"
    "text_attr flat_shape = ''AB''"
    by (simp_all add: effectiveRadius_def js_or_def flat_shape_def demo_shape_def)
  have t: "getTextMetrics demo_measure flat_shape = getTextMetrics demo_measure demo_shape"
    by (rule getTextMetrics_cong) (simp_all add: flat_shape_def)
  show ?thesis
    by (simp add: a t demo_tm place_glyph_def Let_def circumference_def
        js_gt0_def js_is0_def upt_rec numeral_2_eq_2)
qed

lemma tight_tm: "getTextMetrics wide_measure tight_shape = \<lparr>tm_text = ''AB'', xOffsets = [10, 30], tm_width = 40\<rparr>"
  by (simp add: getTextMetrics_def wide_measure_def tight_shape_def demo_shape_def Let_def xOffsets_push_def substring_def)

lemma tight_glyphs:
  "map (place_glyph (effectiveRadius tight_shape) (curveDirection tight_shape)
          (getTextMetrics wide_measure tight_shape)) [0..<length (text_attr tight_shape)] =
   [\<lparr>g_x = - (5 * sin 2), g_y = 5 * cos 2 - 5, g_rotation = 2, g_glyph = ''A''\<rparr>,
    \<lparr>g_x = 5 * sin 2, g_y = 5 * cos 2 - 5, g_rotation = - 2, g_glyph = ''B''\<rparr>]"
proof -
  have a: "effectiveRadius tight_shape = 5" "curveDirection tight_shape = Num (- 1)"
    "text_attr tight_shape = ''AB''"
    by (simp_all add: effectiveRadius_def js_or_def tight_shape_def demo_shape_def)
  show ?thesis
    by (simp add: a tight_tm place_glyph_def Let_def circumference_def
        js_gt0_def js_is0_def upt_rec numeral_2_eq_2)
qed

lemma sin2_cos2: "5 * cos 2 - 5 < - (5 * sin (2::real))"
proof -
  have "sin (2::real) \<le> 1" by (rule sin_le_one)
  moreover have "cos (2::real) < 0" by (rule cos_two_less_zero)
  ultimately show ?thesis by linarith
qed

subsection \<open>Glyph placement\<close>

text \<open>
  C6. For a non-empty text the recompute succeeds and stores one placed glyph per
  character. With r the effective radius and d the curve direction, glyph i has
  angleDeg = (xOffsets[i] - width/2) * 360 / (2 pi r), angleRad = angleDeg * pi / 180,
  cy = r when d > 0 and -r otherwise (also when d is absent), x = r sin angleRad,
  y = cy - cy cos angleRad, and rotation angleRad when d > 0 and -angleRad otherwise.
\<close>

theorem computeText_placement:
  assumes "text_attr s \<noteq> []"
  shows "\<exists>s' L. computeText mt s = Inr s' \<and> computedText s' = Some L
           \<and> length (curveText L) = length (text_attr s)
           \<and> (\<forall>i<length (text_attr s).
                let r = effectiveRadius s;
                    d = curveDirection s;
                    tm = getTextMetrics mt s;
                    angleDeg = (xOffsets tm ! i - tm_width tm / 2) * 360 / (2 * pi * r);
                    angleRad = angleDeg * pi / 180;
                    cy = (if js_gt0 d then r else - r);
                    g = curveText L ! i
                in g_x g = r * sin angleRad
                 \<and> g_y g = cy - cy * cos angleRad
                 \<and> g_rotation g = (if js_gt0 d then angleRad else - angleRad))"
proof -
  from computeText_Inr[OF assms, of mt] obtain s' where
    s': "computeText mt s = Inr s'" and
    L: "computedText s' = Some
         \<lparr>curvePath = \<lparr>cp_cx = 0,
            cp_cy = (if js_gt0 (curveDirection s) then effectiveRadius s else - effectiveRadius s),
            cp_radius = effectiveRadius s, cp_color = ''rgb(31, 163, 249)''\<rparr>,
          textMetrics = getTextMetrics mt s,
          curveText = map (place_glyph (effectiveRadius s) (curveDirection s) (getTextMetrics mt s))
                        [0..<length (text_attr s)]\<rparr>"
    by blast
  show ?thesis
    using s' L place_glyph_fields[OF effectiveRadius_nonzero]
    by (simp add: Let_def)
qed

theorem computeText_placement_witness:
  "text_attr demo_shape \<noteq> [] \<and>
   (\<exists>s' L. computeText demo_measure demo_shape = Inr s' \<and> computedText s' = Some L
      \<and> length (curveText L) = 2
      \<and> g_x (curveText L ! 0) = 100 * sin (- 1 / 20)
      \<and> g_y (curveText L ! 0) = 100 - 100 * cos (- 1 / 20)
      \<and> g_rotation (curveText L ! 0) = - 1 / 20)"
proof -
  have h: "text_attr demo_shape \<noteq> []" by (simp add: demo_shape_def)
  have a: "effectiveRadius demo_shape = 100" "curveDirection demo_shape = Num 1"
    "text_attr demo_shape = ''AB''"
    by (simp_all add: effectiveRadius_def js_or_def demo_shape_def)
  from computeText_placement[OF h, of demo_measure] obtain s' L where
    s': "computeText demo_measure demo_shape = Inr s'" "computedText s' = Some L"
      "length (curveText L) = length (text_attr demo_shape)"
    and g: "\<forall>i<length (text_attr demo_shape).
                let r = effectiveRadius demo_shape;
                    d = curveDirection demo_shape;
                    tm = getTextMetrics demo_measure demo_shape;
                    angleDeg = (xOffsets tm ! i - tm_width tm / 2) * 360 / (2 * pi * r);
                    angleRad = angleDeg * pi / 180;
                    cy = (if js_gt0 d then r else - r);
                    g = curveText L ! i
                in g_x g = r * sin angleRad
                 \<and> g_y g = cy - cy * cos angleRad
                 \<and> g_rotation g = (if js_gt0 d then angleRad else - angleRad)"
    by blast
  from g[rule_format, of 0] have
    "g_x (curveText L ! 0) = 100 * sin (- 1 / 20)
      \<and> g_y (curveText L ! 0) = 100 - 100 * cos (- 1 / 20)
      \<and> g_rotation (curveText L ! 0) = - 1 / 20"
    by (simp add: a demo_tm Let_def js_gt0_def)
  with h s' show ?thesis by (auto simp add: a)
qed

subsection \<open>The layout is a function of the attributes\<close>

text \<open>
  C8. When a recompute succeeds, a second recompute on the resulting node succeeds and
  stores the same layout (metrics, placed glyphs, guide circle); so does a recompute on any
  node with the same text, font attributes, radius and direction, for the same
  measurement service.
\<close>

theorem computeText_idempotent:
  assumes "computeText mt s = Inr s'"
  shows "(\<exists>s''. computeText mt s' = Inr s'' \<and> computedText s'' = computedText s')
       \<and> (\<forall>u. text_attr u = text_attr s \<and> fontFamily u = fontFamily s
              \<and> fontSize u = fontSize s \<and> fontStyle u = fontStyle s
              \<and> fontVariant u = fontVariant s \<and> curveRadius u = curveRadius s
              \<and> curveDirection u = curveDirection s
            \<longrightarrow> (\<exists>u'. computeText mt u = Inr u' \<and> computedText u' = computedText s'))"
proof -
  have ne: "text_attr s \<noteq> []" using assms by (rule computeText_Inr_nonempty)
  from computeText_Inr[OF ne, of mt] assms have
    L: "computedText s' = Some
         \<lparr>curvePath = \<lparr>cp_cx = 0,
            cp_cy = (if js_gt0 (curveDirection s) then effectiveRadius s else - effectiveRadius s),
            cp_radius = effectiveRadius s, cp_color = ''rgb(31, 163, 249)''\<rparr>,
          textMetrics = getTextMetrics mt s,
          curveText = map (place_glyph (effectiveRadius s) (curveDirection s) (getTextMetrics mt s))
                        [0..<length (text_attr s)]\<rparr>"
    and k: "text_attr s' = text_attr s" "fontFamily s' = fontFamily s"
      "fontSize s' = fontSize s" "fontStyle s' = fontStyle s"
      "fontVariant s' = fontVariant s" "curveRadius s' = curveRadius s"
      "curveDirection s' = curveDirection s"
    by auto
  have same: "\<exists>u'. computeText mt u = Inr u' \<and> computedText u' = computedText s'"
    if u: "text_attr u = text_attr s" "fontFamily u = fontFamily s"
      "fontSize u = fontSize s" "fontStyle u = fontStyle s"
      "fontVariant u = fontVariant s" "curveRadius u = curveRadius s"
      "curveDirection u = curveDirection s" for u :: shape
  proof -
    have "text_attr u \<noteq> []" using ne u by simp
    from computeText_Inr[OF this, of mt] show ?thesis
      using L u getTextMetrics_cong[OF u(1-5), of mt] effectiveRadius_cong[OF u(6)]
      by auto
  qed
  show ?thesis
  proof (intro conjI allI impI)
    show "\<exists>s''. computeText mt s' = Inr s'' \<and> computedText s'' = computedText s'"
      using k by (intro same) simp_all
  next
    fix u :: shape
    assume "text_attr u = text_attr s \<and> fontFamily u = fontFamily s
              \<and> fontSize u = fontSize s \<and> fontStyle u = fontStyle s
              \<and> fontVariant u = fontVariant s \<and> curveRadius u = curveRadius s
              \<and> curveDirection u = curveDirection s"
    then show "\<exists>u'. computeText mt u = Inr u' \<and> computedText u' = computedText s'"
      by (intro same) simp_all
  qed
qed

theorem computeText_idempotent_witness:
  "computeText demo_measure demo_single = Inr demo_single_out
   \<and> (\<exists>s''. computeText demo_measure demo_single_out = Inr s''
          \<and> computedText s'' = computedText demo_single_out)
   \<and> (\<exists>u'. computeText demo_measure (demo_single\<lparr>shape_x := 40\<rparr>) = Inr u'
          \<and> computedText u' = computedText demo_single_out)"
proof -
  have h: "computeText demo_measure demo_single = Inr demo_single_out"
    by (rule computeText_demo_single)
  from computeText_idempotent[OF h] have
    a: "\<exists>s''. computeText demo_measure demo_single_out = Inr s''
          \<and> computedText s'' = computedText demo_single_out"
    and b: "\<forall>u. text_attr u = text_attr demo_single \<and> fontFamily u = fontFamily demo_single
              \<and> fontSize u = fontSize demo_single \<and> fontStyle u = fontStyle demo_single
              \<and> fontVariant u = fontVariant demo_single \<and> curveRadius u = curveRadius demo_single
              \<and> curveDirection u = curveDirection demo_single
            \<longrightarrow> (\<exists>u'. computeText demo_measure u = Inr u' \<and> computedText u' = computedText demo_single_out)"
    by blast+
  from b[rule_format, of "demo_single\<lparr>shape_x := 40\<rparr>"] have
    "\<exists>u'. computeText demo_measure (demo_single\<lparr>shape_x := 40\<rparr>) = Inr u'
          \<and> computedText u' = computedText demo_single_out"
    by simp
  with h a show ?thesis by blast
qed

subsection \<open>The two directions\<close>

text \<open>
  C9. For a non-empty text, the layouts for \<open>curveDirection\<close> 1 and -1 place every glyph at
  the same x and at opposite y; the centre ordinate of the guide circle changes sign.
\<close>

theorem computeText_direction_mirror:
  assumes "text_attr s \<noteq> []"
  shows "\<exists>s1 s2 L1 L2.
           computeText mt (s\<lparr>curveDirection := Num 1\<rparr>) = Inr s1 \<and> computedText s1 = Some L1
         \<and> computeText mt (s\<lparr>curveDirection := Num (- 1)\<rparr>) = Inr s2 \<and> computedText s2 = Some L2
         \<and> length (curveText L1) = length (text_attr s)
         \<and> length (curveText L2) = length (text_attr s)
         \<and> cp_cy (curvePath L1) = - cp_cy (curvePath L2)
         \<and> (\<forall>i<length (text_attr s).
               g_x (curveText L1 ! i) = g_x (curveText L2 ! i)
             \<and> g_y (curveText L1 ! i) = - g_y (curveText L2 ! i))"
proof -
  let ?p = "s\<lparr>curveDirection := Num 1\<rparr>" and ?m = "s\<lparr>curveDirection := Num (- 1)\<rparr>"
  have tp: "getTextMetrics mt ?p = getTextMetrics mt s" by (rule getTextMetrics_cong) simp_all
  have tm: "getTextMetrics mt ?m = getTextMetrics mt s" by (rule getTextMetrics_cong) simp_all
  have rp: "effectiveRadius ?p = effectiveRadius s" and rm: "effectiveRadius ?m = effectiveRadius s"
    by (simp_all add: effectiveRadius_def)
  have np: "text_attr ?p \<noteq> []" and nm: "text_attr ?m \<noteq> []" using assms by simp_all
  from computeText_Inr[OF np, of mt] obtain s1 where
    s1: "computeText mt ?p = Inr s1" and
    L1: "computedText s1 = Some
         \<lparr>curvePath = \<lparr>cp_cx = 0, cp_cy = effectiveRadius s,
            cp_radius = effectiveRadius s, cp_color = ''rgb(31, 163, 249)''\<rparr>,
          textMetrics = getTextMetrics mt s,
          curveText = map (place_glyph (effectiveRadius s) (Num 1) (getTextMetrics mt s))
                        [0..<length (text_attr s)]\<rparr>"
    by (auto simp add: tp rp js_gt0_def)
  from computeText_Inr[OF nm, of mt] obtain s2 where
    s2: "computeText mt ?m = Inr s2" and
    L2: "computedText s2 = Some
         \<lparr>curvePath = \<lparr>cp_cx = 0, cp_cy = - effectiveRadius s,
            cp_radius = effectiveRadius s, cp_color = ''rgb(31, 163, 249)''\<rparr>,
          textMetrics = getTextMetrics mt s,
          curveText = map (place_glyph (effectiveRadius s) (Num (- 1)) (getTextMetrics mt s))
                        [0..<length (text_attr s)]\<rparr>"
    by (auto simp add: tm rm js_gt0_def)
  show ?thesis
    using s1 L1 s2 L2 place_glyph_fields(1,2)[OF effectiveRadius_nonzero]
    by (simp add: js_gt0_def)
qed

theorem computeText_direction_mirror_witness:
  "text_attr demo_shape \<noteq> [] \<and>
   (\<exists>s1 s2 L1 L2.
           computeText demo_measure (demo_shape\<lparr>curveDirection := Num 1\<rparr>) = Inr s1 \<and> computedText s1 = Some L1
         \<and> computeText demo_measure (demo_shape\<lparr>curveDirection := Num (- 1)\<rparr>) = Inr s2 \<and> computedText s2 = Some L2
         \<and> length (curveText L1) = 2
         \<and> length (curveText L2) = 2
         \<and> cp_cy (curvePath L1) = - cp_cy (curvePath L2)
         \<and> g_x (curveText L1 ! 0) = g_x (curveText L2 ! 0)
         \<and> g_y (curveText L1 ! 0) = - g_y (curveText L2 ! 0)
         \<and> g_x (curveText L1 ! 1) = g_x (curveText L2 ! 1)
         \<and> g_y (curveText L1 ! 1) = - g_y (curveText L2 ! 1))"
proof -
  have h: "text_attr demo_shape \<noteq> []" by (simp add: demo_shape_def)
  have l: "length (text_attr demo_shape) = 2" by (simp add: demo_shape_def)
  from computeText_direction_mirror[OF h, of demo_measure] obtain s1 s2 L1 L2 where
    f: "computeText demo_measure (demo_shape\<lparr>curveDirection := Num 1\<rparr>) = Inr s1" "computedText s1 = Some L1"
       "computeText demo_measure (demo_shape\<lparr>curveDirection := Num (- 1)\<rparr>) = Inr s2" "computedText s2 = Some L2"
       "length (curveText L1) = length (text_attr demo_shape)"
       "length (curveText L2) = length (text_attr demo_shape)"
       "cp_cy (curvePath L1) = - cp_cy (curvePath L2)"
    and g: "\<forall>i<length (text_attr demo_shape).
               g_x (curveText L1 ! i) = g_x (curveText L2 ! i)
             \<and> g_y (curveText L1 ! i) = - g_y (curveText L2 ! i)"
    by blast
  from g[rule_format, of 0] g[rule_format, of 1] l have
    "g_x (curveText L1 ! 0) = g_x (curveText L2 ! 0)" "g_y (curveText L1 ! 0) = - g_y (curveText L2 ! 0)"
    "g_x (curveText L1 ! 1) = g_x (curveText L2 ! 1)" "g_y (curveText L1 ! 1) = - g_y (curveText L2 ! 1)"
    by simp_all
  with h f l show ?thesis by (simp del: One_nat_def)
qed

section \<open>Where the code departs from its description\<close>

text \<open>
  C1. With \<open>curveRadius\<close> 0 the local radius is already 1000000 when the test
  \<open>curveRadius === 0\<close> is made, so the rotations are not forced to 0: for "AB" with
  glyphs 10 wide they are -1/200000 and 1/200000.
\<close>

theorem computeText_zero_radius_rotation:
  "curveRadius flat_shape = Num 0 \<and>
   (\<exists>s' L. computeText demo_measure flat_shape = Inr s' \<and> computedText s' = Some L
      \<and> map g_rotation (curveText L) = [- 1 / 200000, 1 / 200000]
      \<and> g_rotation (curveText L ! 0) \<noteq> 0)"
proof -
  have ne: "text_attr flat_shape \<noteq> []" by (simp add: flat_shape_def demo_shape_def)
  from computeText_Inr[OF ne, of demo_measure] show ?thesis
    by (auto simp add: flat_glyphs) (simp add: flat_shape_def)
qed

text \<open>
  C2. For the empty text the recompute does not return: \<open>updateBounds\<close> reads \<open>text[0].x\<close>
  of an empty array. The same holds for \<open>setText\<close> on the empty string and on null.
\<close>

theorem computeText_empty_text_fails:
  "computeText mt (s\<lparr>text_attr := ''''\<rparr>) = Inl TypeError
   \<and> setText mt (Some '''') s = Inl TypeError
   \<and> setText mt None s = Inl TypeError"
  by (simp add: setText_def computeText_empty)

text \<open>
  C3. For "A" on a node turned by 90 degrees with a negative direction, the deltas are
  dx = -6 and dy = -12; the code moves the node to (-12, -6), while the rotation of
  (dx, dy) by 90 degrees is (12, -6): the new x is dx cos + dy sin, not dx cos - dy sin.
\<close>

theorem updateBounds_position_not_rotation:
  "\<exists>s'. computeText demo_measure turned_shape = Inr s'
      \<and> shape_width s' = 12 \<and> shape_height s' = 12
      \<and> shape_x s' = - 12 \<and> shape_y s' = - 6
      \<and> shape_x s' \<noteq> shape_x turned_shape
            + ((shape_width turned_shape * shape_scaleX turned_shape - shape_width s' * shape_scaleX turned_shape) / 2
                 * cos (shape_rotation turned_shape * pi / 180)
               - (shape_height turned_shape * shape_scaleY turned_shape - shape_height s' * shape_scaleY turned_shape)
                 * sin (shape_rotation turned_shape * pi / 180))"
proof -
  have t: "getTextMetrics demo_measure turned_shape = getTextMetrics demo_measure demo_single"
    by (rule getTextMetrics_cong) (simp_all add: turned_shape_def)
  show ?thesis
  by (simp add: computeText_def Let_def t demo_single_tm place_glyph_def updateBounds_def grow_bounds_def circumference_def effectiveRadius_def js_or_def js_gt0_def js_lt0_def js_is0_def)
    (simp add: turned_shape_def demo_single_def demo_shape_def)
qed

text \<open>
  C4. For "AB" with glyphs 20 wide on a circle of radius 5 and a negative direction, both
  glyphs have the same y, so the padded extent of the ordinates is \<open>fontSize\<close>; the new
  height is larger, because \<open>maxY\<close> starts at the abscissa of the first glyph.
\<close>

theorem updateBounds_height_initial_maxY:
  "\<exists>s' L. computeText wide_measure tight_shape = Inr s' \<and> computedText s' = Some L
      \<and> map g_y (curveText L) = [5 * cos 2 - 5, 5 * cos 2 - 5]
      \<and> g_x (curveText L ! 0) = - (5 * sin 2)
      \<and> shape_height s' = - (5 * sin 2) - (5 * cos 2 - 5) + 12
      \<and> shape_height s' \<noteq> 0 + fontSize tight_shape"
proof -
  have ne: "text_attr tight_shape \<noteq> []" by (simp add: tight_shape_def demo_shape_def)
  from computeText_Inr[OF ne, of wide_measure] obtain s' where
    s': "computeText wide_measure tight_shape = Inr s'" and
    L: "computedText s' = Some
         \<lparr>curvePath = \<lparr>cp_cx = 0,
            cp_cy = (if js_gt0 (curveDirection tight_shape) then effectiveRadius tight_shape else - effectiveRadius tight_shape),
            cp_radius = effectiveRadius tight_shape, cp_color = ''rgb(31, 163, 249)''\<rparr>,
          textMetrics = getTextMetrics wide_measure tight_shape,
          curveText = map (place_glyph (effectiveRadius tight_shape) (curveDirection tight_shape) (getTextMetrics wide_measure tight_shape))
                        [0..<length (text_attr tight_shape)]\<rparr>"
    by blast
  let ?b = "\<lparr>b_x = shape_x tight_shape, b_y = shape_y tight_shape, b_width = shape_width tight_shape,
             b_height = shape_height tight_shape, b_rotation = shape_rotation tight_shape,
             b_scaleX = shape_scaleX tight_shape, b_scaleY = shape_scaleY tight_shape\<rparr>"
  let ?g0 = "\<lparr>g_x = - (5 * sin 2), g_y = 5 * cos 2 - 5, g_rotation = 2, g_glyph = ''A''\<rparr>"
  let ?g1 = "\<lparr>g_x = 5 * sin 2, g_y = 5 * cos 2 - 5, g_rotation = - 2, g_glyph = ''B''\<rparr>"
  from s' obtain s1 where s1: "updateBounds tight_shape ?b [?g0, ?g1] = Inr s1"
    and hs: "shape_height s' = shape_height s1"
    by (auto simp add: computeText_def Let_def tight_glyphs split: sum.splits)
  have "shape_height s1 = Max (insert (g_x ?g0) (g_y ` set [?g0, ?g1])) - Min (g_y ` set [?g0, ?g1]) + fontSize tight_shape"
    by (rule updateBounds_size(2)[OF s1])
  then have h: "shape_height s' = - (5 * sin 2) - (5 * cos 2 - 5) + 12"
    using hs sin2_cos2 by (simp add: max_def tight_shape_def demo_shape_def)
  have "shape_height s' \<noteq> 0 + fontSize tight_shape"
    using h sin2_cos2 by (simp add: tight_shape_def demo_shape_def)
  with s' L h show ?thesis
    by (simp add: tight_glyphs)
qed

section \<open>The default fill\<close>

text \<open>
  C10, as stated, at a configuration whose only key is an empty-string fill: the fill is
  given explicitly and is replaced by black.
\<close>

theorem checkDefaultFill_empty_fill_counterexample:
  "fillLinearGradientColorStops (empty_config\<lparr>fill := Some ''''\<rparr>) = None
   \<and> fillRadialGradientColorStops (empty_config\<lparr>fill := Some ''''\<rparr>) = None
   \<and> fillPatternImage (empty_config\<lparr>fill := Some ''''\<rparr>) = None
   \<and> fill (empty_config\<lparr>fill := Some ''''\<rparr>) = Some ''''
   \<and> fill (checkDefaultFill (Some (empty_config\<lparr>fill := Some ''''\<rparr>))) = Some ''black''
   \<and> fill (checkDefaultFill (Some (empty_config\<lparr>fill := Some ''''\<rparr>)))
       \<noteq> fill (empty_config\<lparr>fill := Some ''''\<rparr>)"
  by (simp add: checkDefaultFill_def empty_config_def fill_or_black_def)

text \<open>
  C10, amended. When none of the three gradient and pattern keys and no fill is given, or
  no configuration at all, the fill is black; a fill that is given and is not the empty
  string is preserved, and the whole configuration with it.
\<close>

theorem checkDefaultFill_default:
  "(fillLinearGradientColorStops c = None \<and> fillRadialGradientColorStops c = None
      \<and> fillPatternImage c = None \<and> fill c = None
     \<longrightarrow> fill (checkDefaultFill (Some c)) = Some ''black'')
   \<and> (fill c = Some f \<and> f \<noteq> [] \<longrightarrow> checkDefaultFill (Some c) = c)
   \<and> fill (checkDefaultFill None) = Some ''black''"
  by (simp add: checkDefaultFill_def empty_config_def fill_or_black_def Let_def)

theorem checkDefaultFill_default_witness:
  "fillLinearGradientColorStops empty_config = None \<and> fillRadialGradientColorStops empty_config = None
   \<and> fillPatternImage empty_config = None \<and> fill empty_config = None
   \<and> fill (checkDefaultFill (Some empty_config)) = Some ''black''
   \<and> fill (empty_config\<lparr>fill := Some ''green''\<rparr>) = Some ''green'' \<and> ''green'' \<noteq> []
   \<and> checkDefaultFill (Some (empty_config\<lparr>fill := Some ''green''\<rparr>)) = empty_config\<lparr>fill := Some ''green''\<rparr>"
  using checkDefaultFill_default[of empty_config "''x''"]
        checkDefaultFill_default[of "empty_config\<lparr>fill := Some ''green''\<rparr>" "''green''"]
  by (simp add: empty_config_def)

end
